theory Spec2Isabelle
  imports Complex_Main "HOL-Library.AList"
begin

section \<open>Strings, numbers and Python values\<close>

text \<open>
  The engine of \<^verbatim>\<open>livesport_h2h_scraper.py\<close> works on Python strings and floats.
  A Python string is modelled as a \<^typ>\<open>string\<close>: the list of its code points, each
  below 256 (ASCII and Latin-1), which is where \<^verbatim>\<open>str.lower\<close>, \<^verbatim>\<open>str.strip\<close>,
  \<^verbatim>\<open>\s\<close> and \<^verbatim>\<open>\d\<close> are given below exactly as Python defines them.
  A Python float is modelled as the rational number the source writes (\<^verbatim>\<open>0.60\<close> is
  \<open>3/5\<close>); rounding of the IEEE doubles is not modelled. For the one comparison the
  verdict depends on, \<^verbatim>\<open>cnt / len(h2h) >= 0.60\<close>, the double quotient is the
  correctly rounded value of the rational one and the double \<^verbatim>\<open>0.60\<close> lies
  less than \<open>10\<^sup>-\<^sup>1\<^sup>6\<close> below \<open>3/5\<close>, so both comparisons agree for every list shorter
  than \<open>10\<^sup>1\<^sup>5\<close> entries.
\<close>

datatype py_error = TypeError | AnalysisError

text \<open>A value of no fixed type, as \<^verbatim>\<open>player_ranking\<close> is when it reaches the
  surface heuristic: \<^verbatim>\<open>None\<close>, an integer, or a string.\<close>

datatype pyval = PyNone | PyInt int | PyStr string

fun truthy :: "pyval \<Rightarrow> bool" where
  "truthy PyNone = False"
| "truthy (PyInt n) = (n \<noteq> 0)"
| "truthy (PyStr s) = (s \<noteq> [])"

text \<open>\<^verbatim>\<open>if name:\<close> on a value that is \<^verbatim>\<open>None\<close> or a string.\<close>

fun truthy_str :: "string option \<Rightarrow> bool" where
  "truthy_str None = False"
| "truthy_str (Some s) = (s \<noteq> [])"

definition is_space :: "char \<Rightarrow> bool" where
  "is_space c = (let n = (of_char c :: nat) in
     (9 \<le> n \<and> n \<le> 13) \<or> (28 \<le> n \<and> n \<le> 32) \<or> n = 133 \<or> n = 160)"

definition is_digit :: "char \<Rightarrow> bool" where
  "is_digit c = (let n = (of_char c :: nat) in 48 \<le> n \<and> n \<le> 57)"

definition lower_char :: "char \<Rightarrow> char" where
  "lower_char c = (let n = (of_char c :: nat) in
     if (65 \<le> n \<and> n \<le> 90) \<or> (192 \<le> n \<and> n \<le> 222 \<and> n \<noteq> 215)
     then char_of (n + 32) else c)"

definition lower :: "string \<Rightarrow> string" where
  "lower s = map lower_char s"

definition strip :: "string \<Rightarrow> string" where
  "strip s = rev (dropWhile is_space (rev (dropWhile is_space s)))"

fun starts_with :: "string \<Rightarrow> string \<Rightarrow> bool" where
  "starts_with [] s = True"
| "starts_with (p # ps) [] = False"
| "starts_with (p # ps) (c # cs) = (p = c \<and> starts_with ps cs)"

text \<open>\<^verbatim>\<open>p in s\<close> on strings: \<open>p\<close> occurs in \<open>s\<close> as a contiguous piece.\<close>

fun py_in :: "string \<Rightarrow> string \<Rightarrow> bool" where
  "py_in p [] = (p = [])"
| "py_in p (c # cs) = (starts_with p (c # cs) \<or> py_in p cs)"

text \<open>\<^verbatim>\<open>int(ds)\<close> on a run of decimal digits.\<close>

definition py_int :: "string \<Rightarrow> nat" where
  "py_int ds = fold (\<lambda>c n. 10 * n + (of_char c - 48)) ds 0"

subsection \<open>The score pattern\<close>

text \<open>
  \<^verbatim>\<open>re.search(r"(\d+)\s*[:\-]\s*(\d+)", score)\<close>. No piece of the pattern can give
  back what it took (a digit is neither a space nor a separator), so a match at a
  position takes the longest run of digits, the spaces, one separator, the spaces and
  the longest run of digits; \<^verbatim>\<open>search\<close> tries the positions from the left.
  \<open>score_match_at\<close> returns the two groups already converted by \<^verbatim>\<open>int\<close>.
\<close>

definition score_match_at :: "string \<Rightarrow> (nat \<times> nat) option" where
  "score_match_at s =
     (let g1 = takeWhile is_digit s;
          r1 = dropWhile is_space (dropWhile is_digit s)
      in if g1 = [] then None
         else (case r1 of
                 [] \<Rightarrow> None
               | c # r2 \<Rightarrow>
                   if c = CHR '':'' \<or> c = CHR ''-''
                   then (let g2 = takeWhile is_digit (dropWhile is_space r2)
                         in if g2 = [] then None else Some (py_int g1, py_int g2))
                   else None))"

fun score_search :: "string \<Rightarrow> (nat \<times> nat) option" where
  "score_search [] = None"
| "score_search (c # cs) =
     (case score_match_at (c # cs) of
        Some m \<Rightarrow> Some m
      | None \<Rightarrow> score_search cs)"

section \<open>Team sports: \<^verbatim>\<open>process_match\<close>\<close>

text \<open>One entry of the H2H list, as \<^verbatim>\<open>_parse_h2h_rows\<close> builds it: every field a
  string.\<close>

record h2h_item =
  date :: string
  home :: string
  away :: string
  score :: string
  winner :: string

text \<open>The test both counters apply to the winner of a past match (lines 510-515 and
  520-525): equal after normalisation, or one name inside the other.\<close>

definition name_matches :: "string \<Rightarrow> string \<Rightarrow> bool" where
  "name_matches winner_team current =
     (let winner_normalized = strip (lower winner_team);
          current_normalized = strip (lower current)
      in winner_normalized = current_normalized
         \<or> py_in winner_normalized current_normalized
         \<or> py_in current_normalized winner_normalized)"

text \<open>\<^verbatim>\<open>if winner_team and current_home:\<close> followed by the name test.\<close>

fun is_current :: "string option \<Rightarrow> string option \<Rightarrow> bool" where
  "is_current (Some winner_team) (Some current) =
     (winner_team \<noteq> [] \<and> current \<noteq> [] \<and> name_matches winner_team current)"
| "is_current _ _ = False"

text \<open>The body of the counting loop (lines 484-526) on the pair
  \<open>(cnt_home, cnt_away)\<close>. A score that does not match is skipped
  (\<^verbatim>\<open>continue\<close>); a draw has no winner. On entries whose fields are strings
  nothing in the \<^verbatim>\<open>try\<close> block raises, so the \<^verbatim>\<open>except\<close> branch is not
  modelled.\<close>

definition count_item ::
    "string option \<Rightarrow> string option \<Rightarrow> h2h_item \<Rightarrow> nat \<times> nat \<Rightarrow> nat \<times> nat" where
  "count_item current_home current_away item cnt =
     (case score_search (score item) of
        None \<Rightarrow> cnt
      | Some (goals_home_side, goals_away_side) \<Rightarrow>
          (let winner_team =
                 (if goals_home_side > goals_away_side then Some (strip (home item))
                  else if goals_away_side > goals_home_side then Some (strip (away item))
                  else None);
               cnt_home = (if is_current winner_team current_home
                           then fst cnt + 1 else fst cnt);
               cnt_away = (if is_current winner_team current_away
                           then snd cnt + 1 else snd cnt)
           in (cnt_home, cnt_away)))"

definition count_wins ::
    "string option \<Rightarrow> string option \<Rightarrow> h2h_item list \<Rightarrow> nat \<times> nat" where
  "count_wins current_home current_away h2h =
     fold (count_item current_home current_away) h2h (0, 0)"

subsection \<open>Form\<close>

text \<open>The four form lists of \<^verbatim>\<open>form_data\<close>; a result is the string
  \<^verbatim>\<open>'W'\<close>, \<^verbatim>\<open>'D'\<close> or \<^verbatim>\<open>'L'\<close>.\<close>

record form_data =
  home_form_overall :: "string list"
  home_form_home :: "string list"
  away_form_overall :: "string list"
  away_form_away :: "string list"

definition form_points :: "string list \<Rightarrow> nat" where
  "form_points form_list =
     fold (\<lambda>result points.
             if result = ''W'' then points + 3
             else if result = ''D'' then points + 1
             else points) form_list 0"

definition analyze_form_advantage :: "form_data \<Rightarrow> bool" where
  "analyze_form_advantage fd =
     (let home_overall_pts = form_points (home_form_overall fd);
          away_overall_pts = form_points (away_form_overall fd);
          home_home_pts = form_points (home_form_home fd);
          away_away_pts = form_points (away_form_away fd);
          home_good_form = (home_overall_pts \<ge> 7);
          away_poor_form = (away_overall_pts \<le> 6);
          home_better = (home_overall_pts > away_overall_pts
                         \<and> home_home_pts > away_away_pts)
      in (home_good_form \<and> away_poor_form) \<or> home_better)"

definition analyze_away_form_advantage :: "form_data \<Rightarrow> bool" where
  "analyze_away_form_advantage fd =
     (let home_overall_pts = form_points (home_form_overall fd);
          away_overall_pts = form_points (away_form_overall fd);
          home_home_pts = form_points (home_form_home fd);
          away_away_pts = form_points (away_form_away fd);
          away_good_form = (away_overall_pts \<ge> 7);
          home_poor_form = (home_overall_pts \<le> 6);
          away_better = (away_overall_pts > home_overall_pts
                         \<and> away_away_pts > home_home_pts)
      in (away_good_form \<and> home_poor_form) \<or> away_better)"

text \<open>What \<^verbatim>\<open>extract_advanced_team_form\<close> returns: the forms it scraped and the
  two predicates on them. \<^verbatim>\<open>away_advantage\<close> is set only when the URL is a match
  URL; \<^verbatim>\<open>process_match\<close> reads it with the default \<^verbatim>\<open>False\<close>.\<close>

record advanced_form =
  forms :: form_data
  adv_form_advantage :: bool
  adv_away_advantage :: "bool option"

definition extract_advanced_team_form :: "form_data option \<Rightarrow> advanced_form" where
  "extract_advanced_team_form scraped =
     (case scraped of
        None \<Rightarrow>
          \<lparr>forms = \<lparr>home_form_overall = [], home_form_home = [],
                     away_form_overall = [], away_form_away = []\<rparr>,
           adv_form_advantage = False, adv_away_advantage = None\<rparr>
      | Some fd \<Rightarrow>
          \<lparr>forms = fd,
           adv_form_advantage = analyze_form_advantage fd,
           adv_away_advantage = Some (analyze_away_form_advantage fd)\<rparr>)"

subsection \<open>Over/under: which call the analyzer gets\<close>

text \<open>Lines 627-637: the sport is read off the URL.\<close>

definition detect_sport :: "string \<Rightarrow> string" where
  "detect_sport url =
     (let u = lower url in
      if py_in ''koszykowka'' u \<or> py_in ''basketball'' u then ''basketball''
      else if py_in ''siatkowka'' u \<or> py_in ''volleyball'' u then ''volleyball''
      else if py_in ''pilka-reczna'' u \<or> py_in ''handball'' u then ''handball''
      else if py_in ''hokej'' u \<or> py_in ''hockey'' u then ''hockey''
      else if py_in ''tenis'' u \<or> py_in ''tennis'' u then ''tennis''
      else ''football'')"

definition default_lines :: "(string \<times> rat) list" where
  "default_lines =
     [(''football'', 5/2), (''basketball'', 441/2), (''handball'', 111/2),
      (''volleyball'', 9/2), (''hockey'', 11/2), (''tennis'', 5/2)]"

text \<open>The line handed to the analyzer: the text the odds API gave
  (\<^verbatim>\<open>str(line)\<close> in \<^verbatim>\<open>get_over_under_odds\<close>) or a number of the table.\<close>

datatype line_value = LineText string | LineNumber rat

text \<open>What \<^verbatim>\<open>get_over_under_odds\<close> of the odds client returns.\<close>

record api_odds =
  api_over_odds :: "rat option"
  api_under_odds :: "rat option"
  api_line :: "string option"

text \<open>\<^verbatim>\<open>line_to_use = api_line if api_line else default_lines.get(sport, 2.5)\<close>.\<close>

definition line_to_use :: "string \<Rightarrow> string option \<Rightarrow> line_value" where
  "line_to_use sport live =
     (if truthy_str live
      then (case live of Some l \<Rightarrow> LineText l | None \<Rightarrow> LineNumber (5/2))
      else LineNumber (case map_of default_lines sport of
                         Some d \<Rightarrow> d
                       | None \<Rightarrow> 5/2))"

text \<open>A call of \<^verbatim>\<open>over_under_analyzer.analyze_over_under\<close>; \<open>call_line\<close> is
  \<open>None\<close> when the caller passes no \<^verbatim>\<open>line\<close> argument.\<close>

record ou_call =
  call_sport :: string
  call_h2h_results :: "h2h_item list"
  call_line :: "line_value option"

text \<open>The analyzer's answer, a dictionary: a key that is absent is \<open>None\<close>.\<close>

record ou_analysis =
  an_qualifies :: "bool option"
  an_recommendation :: "string option"
  an_line :: "string option"
  an_line_type :: "string option"
  an_h2h_over_percentage :: "rat option"
  an_h2h_percentage :: "rat option"
  an_btts_qualifies :: "bool option"
  an_btts_h2h_percentage :: "rat option"

text \<open>The analyzer is a collaborator outside these files: a function from the call to
  what it returns (\<open>Inl\<close> when it raises, \<open>Inr None\<close> for \<^verbatim>\<open>None\<close>).\<close>

type_synonym analyzer = "ou_call \<Rightarrow> py_error + ou_analysis option"

record ou_fields =
  ou_qualifies :: bool
  ou_recommendation :: "string option"
  ou_line :: "string option"
  ou_line_type :: "string option"
  ou_h2h_percentage :: rat
  over_odds :: "rat option"
  under_odds :: "rat option"
  btts_qualifies :: bool
  btts_h2h_percentage :: rat
  btts_yes_odds :: "rat option"
  btts_no_odds :: "rat option"

text \<open>Lines 656-666 (and 1993-2002 for tennis, which has no recommendation key: it is
  \<open>None\<close> here).\<close>

definition ou_defaults :: ou_fields where
  "ou_defaults =
     \<lparr>ou_qualifies = False, ou_recommendation = None, ou_line = None,
      ou_line_type = None, ou_h2h_percentage = 0, over_odds = None, under_odds = None,
      btts_qualifies = False, btts_h2h_percentage = 0,
      btts_yes_odds = None, btts_no_odds = None\<rparr>"

text \<open>Step 1 (lines 669-692): the prices and the live line of the odds API, asked for
  only with an event id in the URL and five H2H entries. \<open>api\<close> is what the client
  returns for the event (\<open>None\<close> when it has no event id, no answer, or raises);
  \<open>btts\<close> the pair of BTTS prices.\<close>

definition fetch_api ::
    "string \<Rightarrow> string \<Rightarrow> h2h_item list \<Rightarrow> api_odds option
       \<Rightarrow> (rat option \<times> rat option) option \<Rightarrow> ou_fields \<times> string option" where
  "fetch_api url sport h2h api btts =
     (if url \<noteq> [] \<and> py_in ''?mid='' url \<and> length h2h \<ge> 5
      then (let out1 = (case api of
                          None \<Rightarrow> ou_defaults
                        | Some odds \<Rightarrow> ou_defaults\<lparr>over_odds := api_over_odds odds,
                                                     under_odds := api_under_odds odds\<rparr>);
                live = (case api of None \<Rightarrow> None | Some odds \<Rightarrow> api_line odds);
                out2 = (if sport = ''football''
                        then (case btts of
                                None \<Rightarrow> out1
                              | Some (y, n) \<Rightarrow> out1\<lparr>btts_yes_odds := y, btts_no_odds := n\<rparr>)
                        else out1)
            in (out2, live))
      else (ou_defaults, None))"

text \<open>Step 2, the guard of line 695 and the arguments of lines 707-715: the call
  \<^verbatim>\<open>process_match\<close> makes, \<open>None\<close> when it makes none.\<close>

definition ou_request :: "string \<Rightarrow> h2h_item list \<Rightarrow> string option \<Rightarrow> ou_call option" where
  "ou_request sport h2h live =
     (if length h2h \<ge> 5
      then Some \<lparr>call_sport = sport, call_h2h_results = h2h,
                 call_line = Some (line_to_use sport live)\<rparr>
      else None)"

text \<open>Lines 717-727: the answer is copied only when it qualifies.\<close>

definition ou_store :: "string \<Rightarrow> ou_analysis \<Rightarrow> ou_fields \<Rightarrow> ou_fields" where
  "ou_store sport a out =
     (let out1 = out\<lparr>ou_qualifies := True,
                     ou_recommendation := an_recommendation a,
                     ou_line := Some (case an_line a of Some l \<Rightarrow> l | None \<Rightarrow> []),
                     ou_line_type := Some (case an_line_type a of Some t \<Rightarrow> t | None \<Rightarrow> []),
                     ou_h2h_percentage :=
                       (case an_h2h_over_percentage a of Some p \<Rightarrow> p | None \<Rightarrow> 0)\<rparr>
      in if sport = ''football'' \<and> an_btts_qualifies a \<noteq> None
         then out1\<lparr>btts_qualifies :=
                     (case an_btts_qualifies a of Some b \<Rightarrow> b | None \<Rightarrow> False),
                   btts_h2h_percentage :=
                     (case an_btts_h2h_percentage a of Some p \<Rightarrow> p | None \<Rightarrow> 0)\<rparr>
         else out1)"

text \<open>The call \<^verbatim>\<open>process_match\<close> makes for an event: the sport of its URL, and
  the live line of step 1.\<close>

definition match_ou_call ::
    "string \<Rightarrow> h2h_item list \<Rightarrow> api_odds option
       \<Rightarrow> (rat option \<times> rat option) option \<Rightarrow> ou_call option" where
  "match_ou_call url h2h api btts =
     (let sport = detect_sport url
      in ou_request sport h2h (snd (fetch_api url sport h2h api btts)))"

definition ou_step ::
    "analyzer \<Rightarrow> string \<Rightarrow> h2h_item list \<Rightarrow> api_odds option
       \<Rightarrow> (rat option \<times> rat option) option \<Rightarrow> ou_fields" where
  "ou_step analyze url h2h api btts =
     (let sport = detect_sport url;
          out = fst (fetch_api url sport h2h api btts)
      in case match_ou_call url h2h api btts of
           None \<Rightarrow> out
         | Some call \<Rightarrow>
             (case analyze call of
                Inl e \<Rightarrow> out
              | Inr None \<Rightarrow> out
              | Inr (Some a) \<Rightarrow>
                  if an_qualifies a = Some True then ou_store sport a out else out))"

subsection \<open>The verdict\<close>

text \<open>What the page and the collaborators give \<^verbatim>\<open>process_match\<close>: the names, the
  parsed H2H list, the form pages (\<open>Inl\<close> when reading them raises, \<open>Inr None\<close> when
  the URL is not a match URL and nothing is read) and the odds API's answers.
  When the page cannot be opened at all, \<^verbatim>\<open>process_match\<close> returns its initial
  record: no names, an empty history, \<^verbatim>\<open>win_rate\<close> 0.0 and \<^verbatim>\<open>qualifies\<close>
  False, which are the values the model gives for a page without names and
  history.\<close>

record match_page =
  match_url :: string
  home_team :: "string option"
  away_team :: "string option"
  h2h_last5 :: "h2h_item list"
  form_pages :: "py_error + form_data option"
  ou_api :: "api_odds option"
  btts_api :: "(rat option \<times> rat option) option"

record match_out =
  home_wins_in_h2h_last5 :: nat
  away_wins_in_h2h_last5 :: nat
  h2h_count :: nat
  win_rate :: rat
  qualifies :: bool
  form_advantage :: bool
  out_forms :: form_data
  ou :: ou_fields

definition no_forms :: form_data where
  "no_forms = \<lparr>home_form_overall = [], home_form_home = [],
               away_form_overall = [], away_form_away = []\<rparr>"

text \<open>Lines 479-733. The form pages are read only for an event that qualifies on H2H;
  the form is a bonus and never changes \<open>qualifies\<close>.\<close>

definition process_match :: "analyzer \<Rightarrow> match_page \<Rightarrow> bool \<Rightarrow> match_out" where
  "process_match analyze page away_team_focus =
     (let h2h = h2h_last5 page;
          (cnt_home, cnt_away) = count_wins (home_team page) (away_team page) h2h;
          cnt = (if away_team_focus then cnt_away else cnt_home);
          rate = (if length h2h > 0 then of_nat cnt / of_nat (length h2h) else 0);
          basic_qualifies = (rate \<ge> 3/5 \<and> length h2h \<ge> 1);
          out = \<lparr>home_wins_in_h2h_last5 = cnt_home,
                 away_wins_in_h2h_last5 = cnt_away,
                 h2h_count = length h2h,
                 win_rate = rate,
                 qualifies = False,
                 form_advantage = False,
                 out_forms = no_forms,
                 ou = ou_step analyze (match_url page) h2h (ou_api page) (btts_api page)\<rparr>
      in if basic_qualifies
         then (case form_pages page of
                 Inr scraped \<Rightarrow>
                   (let advanced = extract_advanced_team_form scraped
                    in out\<lparr>out_forms := forms advanced,
                           form_advantage :=
                             (if away_team_focus
                              then (case adv_away_advantage advanced of
                                      Some b \<Rightarrow> b
                                    | None \<Rightarrow> False)
                              else adv_form_advantage advanced),
                           qualifies := basic_qualifies\<rparr>)
               | Inl e \<Rightarrow> out\<lparr>qualifies := basic_qualifies\<rparr>)
         else out\<lparr>qualifies := False\<rparr>)"

section \<open>Tennis\<close>

subsection \<open>The surface profile: \<^verbatim>\<open>calculate_surface_stats_from_h2h\<close>\<close>

text \<open>Lines 1724-1736, the loop body on \<open>(wins, total)\<close>.\<close>

definition base_item :: "string \<Rightarrow> h2h_item \<Rightarrow> nat \<times> nat \<Rightarrow> nat \<times> nat" where
  "base_item player_normalized m wt =
     (let h = strip (lower (home m));
          a = strip (lower (away m));
          w = winner m
      in if py_in player_normalized h \<or> py_in h player_normalized
         then (if w = ''home'' then fst wt + 1 else fst wt, snd wt + 1)
         else if py_in player_normalized a \<or> py_in a player_normalized
         then (if w = ''away'' then fst wt + 1 else fst wt, snd wt + 1)
         else wt)"

text \<open>Step 1 (lines 1717-1739).\<close>

definition h2h_base_rate :: "h2h_item list \<Rightarrow> string \<Rightarrow> rat" where
  "h2h_base_rate h2h_matches player_name =
     (if h2h_matches \<noteq> []
      then (let (wins, total) =
                  fold (base_item (strip (lower player_name))) h2h_matches (0, 0)
            in if total > 0 then of_nat wins / of_nat total else 3/5)
      else 3/5)"

text \<open>Step 2 (lines 1742-1754). The guard is \<^verbatim>\<open>if player_ranking:\<close>, so
  \<^verbatim>\<open>None\<close> and \<^verbatim>\<open>0\<close> leave the rate as it is; comparing a string with
  \<^verbatim>\<open>10\<close> raises.\<close>

definition ranking_adjust :: "pyval \<Rightarrow> rat \<Rightarrow> py_error + rat" where
  "ranking_adjust player_ranking base_rate =
     (if truthy player_ranking
      then (case player_ranking of
              PyInt r \<Rightarrow>
                Inr (if r \<le> 10 then min (base_rate + 15/100) (95/100)
                     else if r \<le> 30 then min (base_rate + 10/100) (90/100)
                     else if r \<le> 50 then min (base_rate + 5/100) (85/100)
                     else if r \<le> 100 then min base_rate (75/100)
                     else max (base_rate - 5/100) (45/100))
            | _ \<Rightarrow> Inl TypeError)
      else Inr base_rate)"

definition name_hash :: "string \<Rightarrow> nat" where
  "name_hash player_name = sum_list (map of_char player_name)"

definition surfaces :: "string list" where
  "surfaces = [''clay'', ''grass'', ''hard'']"

text \<open>\<^verbatim>\<open>stats[surf]\<close>: the dictionary is a list of pairs in insertion order; every
  key read below was stored when the dictionary was built.\<close>

definition stat :: "(string \<times> rat) list \<Rightarrow> string \<Rightarrow> rat" where
  "stat stats surf = (case map_of stats surf of Some v \<Rightarrow> v | None \<Rightarrow> 0)"

text \<open>Steps 3 and 4 (lines 1760-1784). \<open>name_hash mod 3\<close> is below the length of
  \<open>surfaces\<close>, so the index is in range.\<close>

definition specialise :: "string \<Rightarrow> rat \<Rightarrow> (string \<times> rat) list" where
  "specialise player_name base_rate =
     (let specialty_index = name_hash player_name mod 3;
          stats0 = [(''clay'', base_rate), (''grass'', base_rate), (''hard'', base_rate)];
          specialty_surface = surfaces ! specialty_index;
          stats1 = AList.update specialty_surface
                     (min (stat stats0 specialty_surface + 8/100) (98/100)) stats0;
          stats2 = fold (\<lambda>surf st.
                           if surf \<noteq> specialty_surface
                           then AList.update surf (max (stat st surf - 4/100) (30/100)) st
                           else st) surfaces stats1;
          micro_variation = (of_nat (name_hash player_name mod 7) - 3) / 100
      in fold (\<lambda>surf st.
                 AList.update surf
                   (max (30/100) (min (98/100) (stat st surf + micro_variation))) st)
           surfaces stats2)"

definition surface_fallback :: "(string \<times> rat) list" where
  "surface_fallback = [(''clay'', 62/100), (''grass'', 68/100), (''hard'', 65/100)]"

text \<open>The whole function: \<^verbatim>\<open>None\<close> without a name, the fixed profile when
  anything in the \<^verbatim>\<open>try\<close> block raises.\<close>

definition calculate_surface_stats_from_h2h ::
    "h2h_item list \<Rightarrow> string option \<Rightarrow> string option \<Rightarrow> pyval
       \<Rightarrow> (string \<times> rat) list option" where
  "calculate_surface_stats_from_h2h h2h_matches player_name current_surface player_ranking =
     (case player_name of
        None \<Rightarrow> None
      | Some name \<Rightarrow>
          if name = [] then None
          else (case ranking_adjust player_ranking (h2h_base_rate h2h_matches name) of
                  Inl e \<Rightarrow> Some surface_fallback
                | Inr base_rate \<Rightarrow> Some (specialise name base_rate)))"

subsection \<open>The profile as the specification words it\<close>


definition spec_surface_value :: "nat \<Rightarrow> nat \<Rightarrow> rat \<Rightarrow> rat" where
  "spec_surface_value h i b =
     max (30/100) (min (98/100)
       ((if h mod 3 = i then min (b + 8/100) (98/100) else max (b - 4/100) (30/100))
        + (of_nat (h mod 7) - 3) / 100))"

definition spec_profile :: "string \<Rightarrow> rat \<Rightarrow> (string \<times> rat) list" where
  "spec_profile name b =
     [(''clay'', spec_surface_value (name_hash name) 0 b),
      (''grass'', spec_surface_value (name_hash name) 1 b),
      (''hard'', spec_surface_value (name_hash name) 2 b)]"

subsection \<open>\<^verbatim>\<open>process_match_tennis\<close>\<close>

text \<open>Lines 1921-1960, the loop body on \<open>(player_a_wins, player_b_wins)\<close>: an
  \<^verbatim>\<open>if\<close>/\<^verbatim>\<open>elif\<close>, so a match is credited to one player at most. A score
  without a match and a tie are skipped.\<close>

definition tennis_name_matches :: "string \<Rightarrow> string option \<Rightarrow> bool" where
  "tennis_name_matches w player =
     (let winner_normalized = strip (lower w);
          player_normalized = (case player of
                                 Some p \<Rightarrow> if p \<noteq> [] then strip (lower p) else []
                               | None \<Rightarrow> [])
      in truthy_str player
         \<and> (winner_normalized = player_normalized
            \<or> py_in winner_normalized player_normalized
            \<or> py_in player_normalized winner_normalized))"

definition tennis_item ::
    "string option \<Rightarrow> string option \<Rightarrow> h2h_item \<Rightarrow> nat \<times> nat \<Rightarrow> nat \<times> nat" where
  "tennis_item player_a player_b item cnt =
     (case score_search (score item) of
        None \<Rightarrow> cnt
      | Some (sets1, sets2) \<Rightarrow>
          if sets1 = sets2 then cnt
          else (let w = (if sets1 > sets2 then strip (home item) else strip (away item))
                in if tennis_name_matches w player_a then (fst cnt + 1, snd cnt)
                   else if tennis_name_matches w player_b then (fst cnt, snd cnt + 1)
                   else cnt))"

definition tennis_wins ::
    "string option \<Rightarrow> string option \<Rightarrow> h2h_item list \<Rightarrow> nat \<times> nat" where
  "tennis_wins player_a player_b h2h = fold (tennis_item player_a player_b) h2h (0, 0)"

text \<open>Lines 2005-2013: the analyzer is called with the sport and the list, and no
  \<^verbatim>\<open>line\<close> argument.\<close>

definition tennis_ou_request :: "h2h_item list \<Rightarrow> ou_call option" where
  "tennis_ou_request h2h =
     (if length h2h \<ge> 5
      then Some \<lparr>call_sport = ''tennis'', call_h2h_results = h2h, call_line = None\<rparr>
      else None)"

text \<open>Lines 2015-2035: the answer is copied when it has the key
  \<^verbatim>\<open>qualifies\<close>; the prices are then asked of the odds API.\<close>

definition tennis_ou_step ::
    "analyzer \<Rightarrow> string \<Rightarrow> h2h_item list \<Rightarrow> api_odds option \<Rightarrow> ou_fields" where
  "tennis_ou_step analyze url h2h api =
     (case tennis_ou_request h2h of
        None \<Rightarrow> ou_defaults
      | Some call \<Rightarrow>
          (case analyze call of
             Inl e \<Rightarrow> ou_defaults
           | Inr None \<Rightarrow> ou_defaults
           | Inr (Some a) \<Rightarrow>
               (case an_qualifies a of
                  None \<Rightarrow> ou_defaults
                | Some q \<Rightarrow>
                    (let out1 = ou_defaults\<lparr>
                           ou_qualifies := q,
                           ou_line := Some (case an_line a of Some l \<Rightarrow> l | None \<Rightarrow> ''2.5''),
                           ou_line_type :=
                             Some (case an_line_type a of Some t \<Rightarrow> t | None \<Rightarrow> ''sets''),
                           ou_h2h_percentage :=
                             (case an_h2h_percentage a of Some p \<Rightarrow> p | None \<Rightarrow> 0)\<rparr>
                     in if url \<noteq> [] \<and> py_in ''?mid='' url
                        then (case api of
                                None \<Rightarrow> out1
                              | Some odds \<Rightarrow> out1\<lparr>over_odds := api_over_odds odds,
                                                    under_odds := api_under_odds odds\<rparr>)
                        else out1))))"

text \<open>What \<^verbatim>\<open>TennisMatchAnalyzerV3.analyze_match\<close> returns, as far as it is read:
  \<^verbatim>\<open>total_score\<close>, \<^verbatim>\<open>qualifies\<close>, \<^verbatim>\<open>breakdown\<close> and the
  \<^verbatim>\<open>favorite\<close> of \<^verbatim>\<open>details\<close> (absent: \<open>None\<close>).\<close>

record tennis_analysis =
  total_score :: rat
  analysis_qualifies :: bool
  breakdown :: "(string \<times> rat) list"
  details_favorite :: "string option"

text \<open>What the page and the collaborators give \<^verbatim>\<open>process_match_tennis\<close>.
  \<open>analysis\<close> is the outcome of the \<^verbatim>\<open>try\<close> block of lines 2045-2102: \<open>Inl\<close>
  when the import, the call or a key lookup raises.\<close>

record tennis_page =
  tennis_url :: string
  player_a_name :: "string option"
  player_b_name :: "string option"
  tennis_h2h :: "h2h_item list"
  tennis_ou_api :: "api_odds option"
  analysis :: "py_error + tennis_analysis"

record tennis_out =
  player_a_wins :: nat
  player_b_wins :: nat
  tennis_h2h_count :: nat
  advanced_score :: rat
  tennis_qualifies :: bool
  favorite :: string
  tennis_ou :: ou_fields

text \<open>Lines 2109-2114 and 2136-2141.\<close>

definition h2h_favorite :: "nat \<Rightarrow> nat \<Rightarrow> string" where
  "h2h_favorite a_wins b_wins =
     (if a_wins > b_wins then ''player_a''
      else if b_wins > a_wins then ''player_b''
      else ''even'')"

definition process_match_tennis :: "analyzer \<Rightarrow> tennis_page \<Rightarrow> tennis_out" where
  "process_match_tennis analyze page =
     (let h2h = tennis_h2h page;
          (a_wins, b_wins) = tennis_wins (player_a_name page) (player_b_name page) h2h;
          out = \<lparr>player_a_wins = a_wins,
                 player_b_wins = b_wins,
                 tennis_h2h_count = length h2h,
                 advanced_score = 0,
                 tennis_qualifies = False,
                 favorite = [],
                 tennis_ou = tennis_ou_step analyze (tennis_url page) h2h (tennis_ou_api page)\<rparr>
      in case analysis page of
           Inr an \<Rightarrow>
             (let score_abs = \<bar>total_score an\<bar>;
                  favorite_key = (case details_favorite an of
                                    Some f \<Rightarrow> f
                                  | None \<Rightarrow> ''unknown'')
              in out\<lparr>advanced_score := score_abs,
                     tennis_qualifies := analysis_qualifies an,
                     favorite := (if score_abs = 0 \<or> favorite_key = ''even''
                                  then h2h_favorite a_wins b_wins
                                  else favorite_key)\<rparr>)
         | Inl e \<Rightarrow>
             out\<lparr>tennis_qualifies := (a_wins \<ge> 1 \<and> a_wins > b_wins),
                 advanced_score := 0,
                 favorite := h2h_favorite a_wins b_wins\<rparr>)"

text \<open>The wins of the side the pass looks at: \<^verbatim>\<open>cnt_away\<close> in the away
  mode, \<^verbatim>\<open>cnt_home\<close> otherwise.\<close>

definition focus_wins :: "match_out \<Rightarrow> bool \<Rightarrow> nat" where
  "focus_wins out away_team_focus =
     (if away_team_focus then away_wins_in_h2h_last5 out else home_wins_in_h2h_last5 out)"

section \<open>Example inputs\<close>

definition past_match :: "string \<Rightarrow> string \<Rightarrow> string \<Rightarrow> h2h_item" where
  "past_match h s a = \<lparr>date = [], home = h, away = a, score = s, winner = ''unknown''\<rparr>"

definition example_page :: "string \<Rightarrow> string \<Rightarrow> h2h_item list \<Rightarrow> match_page" where
  "example_page h a xs =
     \<lparr>match_url = ''https://www.livesport.com/pl/mecz/pilka-nozna/a/b/?mid=Xy12'',
      home_team = Some h, away_team = Some a, h2h_last5 = xs,
      form_pages = Inr None, ou_api = None, btts_api = None\<rparr>"

text \<open>An analyzer that answers \<^verbatim>\<open>None\<close> to every call.\<close>

definition silent_analyzer :: analyzer where
  "silent_analyzer call = Inr None"



text \<open>Real Madrid at home to Real Madrid B, with one past win of Real Madrid.\<close>

definition madrid_page :: match_page where
  "madrid_page =
     example_page ''Real Madrid'' ''Real Madrid B''
       [past_match ''Real Madrid'' ''2-1'' ''Barcelona'']"

text \<open>A tennis page with both names, a history and the outcome of the scoring
  collaborator.\<close>

definition tennis_page_of ::
    "string \<Rightarrow> string \<Rightarrow> h2h_item list \<Rightarrow> py_error + tennis_analysis \<Rightarrow> tennis_page" where
  "tennis_page_of pa pb xs an =
     \<lparr>tennis_url = ''https://www.livesport.com/pl/mecz/tenis/a/b/?mid=Qw34'',
      player_a_name = Some pa, player_b_name = Some pb,
      tennis_h2h = xs, tennis_ou_api = None, analysis = an\<rparr>"



section \<open>Properties\<close>

subsection \<open>The counting loop of the team sports\<close>

lemma count_item_fst: "fst (count_item ch ca item cnt) \<le> fst cnt + 1"
  by (simp add: count_item_def Let_def split: option.split prod.split)

lemma count_item_snd: "snd (count_item ch ca item cnt) \<le> snd cnt + 1"
  by (simp add: count_item_def Let_def split: option.split prod.split)

lemma fold_count_fst:
  "fst (fold (count_item ch ca) h2h cnt) \<le> fst cnt + length h2h"
proof (induction h2h arbitrary: cnt)
  case Nil
  show ?case by simp
next
  case (Cons item h2h)
  have "fst (fold (count_item ch ca) h2h (count_item ch ca item cnt))
          \<le> fst (count_item ch ca item cnt) + length h2h"
    by (rule Cons.IH)
  also have "\<dots> \<le> (fst cnt + 1) + length h2h"
    using count_item_fst [of ch ca item cnt] by simp
  finally show ?case by simp
qed

lemma fold_count_snd:
  "snd (fold (count_item ch ca) h2h cnt) \<le> snd cnt + length h2h"
proof (induction h2h arbitrary: cnt)
  case Nil
  show ?case by simp
next
  case (Cons item h2h)
  have "snd (fold (count_item ch ca) h2h (count_item ch ca item cnt))
          \<le> snd (count_item ch ca item cnt) + length h2h"
    by (rule Cons.IH)
  also have "\<dots> \<le> (snd cnt + 1) + length h2h"
    using count_item_snd [of ch ca item cnt] by simp
  finally show ?case by simp
qed

lemma count_wins_le:
  "fst (count_wins ch ca h2h) \<le> length h2h" "snd (count_wins ch ca h2h) \<le> length h2h"
  using fold_count_fst [of ch ca h2h "(0, 0)"] fold_count_snd [of ch ca h2h "(0, 0)"]
  by (simp_all add: count_wins_def)

text \<open>The fields of the verdict, read off \<open>process_match\<close>.\<close>

lemma pm_home_wins:
  "home_wins_in_h2h_last5 (process_match analyze page focus)
     = fst (count_wins (home_team page) (away_team page) (h2h_last5 page))"
  by (simp add: process_match_def Let_def split: prod.split sum.split)

lemma pm_away_wins:
  "away_wins_in_h2h_last5 (process_match analyze page focus)
     = snd (count_wins (home_team page) (away_team page) (h2h_last5 page))"
  by (simp add: process_match_def Let_def split: prod.split sum.split)

lemma pm_h2h_count:
  "h2h_count (process_match analyze page focus) = length (h2h_last5 page)"
  by (simp add: process_match_def Let_def split: prod.split sum.split)

lemma pm_win_rate:
  "win_rate (process_match analyze page focus)
     = (if length (h2h_last5 page) > 0
        then of_nat (focus_wins (process_match analyze page focus) focus)
               / of_nat (length (h2h_last5 page))
        else 0)"
  by (simp add: process_match_def focus_wins_def Let_def split: prod.split sum.split)

lemma pm_qualifies:
  "qualifies (process_match analyze page focus)
     = (win_rate (process_match analyze page focus) \<ge> 3/5
        \<and> length (h2h_last5 page) \<ge> 1)"
  by (simp add: process_match_def Let_def split: prod.split sum.split)



lemma madrid_counts:
  "count_wins (Some ''Real Madrid'') (Some ''Real Madrid B'')
     [past_match ''Real Madrid'' ''2-1'' ''Barcelona''] = (1, 1)"
  by code_simp



text \<open>
  Claim C2. With an empty parsed history \<open>win_rate\<close> is \<open>0.0\<close> and the verdict does
  not qualify, as a normal result; with at least one parsed match \<open>win_rate\<close> lies in
  \<open>[0.0, 1.0]\<close>. In particular the win count of the focus side never exceeds
  \<open>h2h_count\<close>, although the name test can credit one match to both sides: each entry
  raises each counter by one at most.
\<close>

theorem win_rate_bounds:
  "(h2h_last5 page = []
      \<longrightarrow> win_rate (process_match analyze page focus) = 0
          \<and> \<not> qualifies (process_match analyze page focus))
   \<and> (h2h_last5 page \<noteq> []
      \<longrightarrow> 0 \<le> win_rate (process_match analyze page focus)
          \<and> win_rate (process_match analyze page focus) \<le> 1)
   \<and> focus_wins (process_match analyze page focus) focus
        \<le> h2h_count (process_match analyze page focus)"
proof -
  let ?out = "process_match analyze page focus"
  let ?n = "length (h2h_last5 page)"
  have wins: "focus_wins ?out focus \<le> ?n"
    using count_wins_le [of "home_team page" "away_team page" "h2h_last5 page"]
    by (simp add: focus_wins_def pm_home_wins pm_away_wins)
  have empty: "h2h_last5 page = [] \<longrightarrow> win_rate ?out = 0 \<and> \<not> qualifies ?out"
    by (simp add: pm_qualifies pm_win_rate [of analyze page focus])
  have "h2h_last5 page \<noteq> [] \<longrightarrow> 0 \<le> win_rate ?out \<and> win_rate ?out \<le> 1"
  proof
    assume ne: "h2h_last5 page \<noteq> []"
    then have pos: "0 < ?n" by simp
    have rate: "win_rate ?out = of_nat (focus_wins ?out focus) / of_nat ?n"
      using pos by (simp add: pm_win_rate [of analyze page focus])
    have "(of_nat (focus_wins ?out focus) :: rat) \<le> of_nat ?n"
      using wins by simp
    then have "(of_nat (focus_wins ?out focus) :: rat) / of_nat ?n \<le> 1"
      using pos by (simp add: divide_le_eq_1)
    moreover have "(0::rat) \<le> of_nat (focus_wins ?out focus) / of_nat ?n"
      by simp
    ultimately show "0 \<le> win_rate ?out \<and> win_rate ?out \<le> 1"
      using rate by simp
  qed
  with empty wins show ?thesis
    by (simp add: pm_h2h_count)
qed

text \<open>An empty history in the home mode, and the Madrid page in the away mode.\<close>

theorem win_rate_bounds_witness:
  "h2h_last5 (example_page ''Alpha'' ''Beta'' []) = []
   \<and> win_rate (process_match silent_analyzer (example_page ''Alpha'' ''Beta'' []) False) = 0
   \<and> \<not> qualifies (process_match silent_analyzer (example_page ''Alpha'' ''Beta'' []) False)
   \<and> h2h_last5 madrid_page \<noteq> []
   \<and> 0 \<le> win_rate (process_match silent_analyzer madrid_page True)
   \<and> win_rate (process_match silent_analyzer madrid_page True) \<le> 1"
proof -
  have e: "h2h_last5 (example_page ''Alpha'' ''Beta'' []) = []"
    by (simp add: example_page_def)
  have m: "h2h_last5 madrid_page \<noteq> []"
    by (simp add: madrid_page_def example_page_def)
  show ?thesis
    using e m
      win_rate_bounds [of "example_page ''Alpha'' ''Beta'' []" silent_analyzer False]
      win_rate_bounds [of madrid_page silent_analyzer True]
    by blast
qed

text \<open>
  Claim C8. In the win-counting loop of the team sports one past match can be credited
  to both current sides. With Real Madrid at home to Real Madrid B, the one past match
  (Real Madrid 2-1 Barcelona) has the winner Real Madrid, which equals the home name
  and is contained in the away name: the verdict counts one home win and one away win
  out of one match, and nothing afterwards corrects it.
\<close>

theorem double_counting_preserved:
  "home_wins_in_h2h_last5 (process_match silent_analyzer madrid_page False) = 1
   \<and> away_wins_in_h2h_last5 (process_match silent_analyzer madrid_page False) = 1
   \<and> h2h_count (process_match silent_analyzer madrid_page False) = 1"
  by (simp add: pm_home_wins pm_away_wins pm_h2h_count madrid_page_def example_page_def
        madrid_counts)

subsection \<open>Form\<close>

lemma form_points_fold:
  "fold (\<lambda>result points.
           if result = ''W'' then points + 3
           else if result = ''D'' then points + 1
           else points) fl n
     = n + 3 * count_list fl ''W'' + count_list fl ''D''"
  by (induction fl arbitrary: n) simp_all

text \<open>
  Claim C3. Form points are 3 for each \<^verbatim>\<open>'W'\<close> plus 1 for each \<^verbatim>\<open>'D'\<close>; an
  \<^verbatim>\<open>'L'\<close> (or anything else) adds nothing. The home form advantage holds exactly
  when (home overall points \<open>\<ge> 7\<close> and away overall points \<open>\<le> 6\<close>) or (home overall
  points above away overall points and home points at home above away points away);
  the away form advantage is the mirror rule, with the two sides and the thresholds
  swapped.
\<close>

theorem form_advantage_rule:
  "form_points fl = 3 * count_list fl ''W'' + 1 * count_list fl ''D''
   \<and> (analyze_form_advantage fd
        \<longleftrightarrow> (form_points (home_form_overall fd) \<ge> 7
              \<and> form_points (away_form_overall fd) \<le> 6)
            \<or> (form_points (home_form_overall fd) > form_points (away_form_overall fd)
               \<and> form_points (home_form_home fd) > form_points (away_form_away fd)))
   \<and> (analyze_away_form_advantage fd
        \<longleftrightarrow> (form_points (away_form_overall fd) \<ge> 7
              \<and> form_points (home_form_overall fd) \<le> 6)
            \<or> (form_points (away_form_overall fd) > form_points (home_form_overall fd)
               \<and> form_points (away_form_away fd) > form_points (home_form_home fd)))"
proof -
  have pts: "form_points fl = 3 * count_list fl ''W'' + 1 * count_list fl ''D''"
    by (simp add: form_points_def form_points_fold)
  have h: "analyze_form_advantage fd
        \<longleftrightarrow> (form_points (home_form_overall fd) \<ge> 7
              \<and> form_points (away_form_overall fd) \<le> 6)
            \<or> (form_points (home_form_overall fd) > form_points (away_form_overall fd)
               \<and> form_points (home_form_home fd) > form_points (away_form_away fd))"
    by (simp add: analyze_form_advantage_def Let_def)
  have a: "analyze_away_form_advantage fd
        \<longleftrightarrow> (form_points (away_form_overall fd) \<ge> 7
              \<and> form_points (home_form_overall fd) \<le> 6)
            \<or> (form_points (away_form_overall fd) > form_points (home_form_overall fd)
               \<and> form_points (away_form_away fd) > form_points (home_form_home fd))"
    by (simp add: analyze_away_form_advantage_def Let_def)
  from pts h a show ?thesis by blast
qed

subsection \<open>The counting loop of tennis\<close>

lemma tennis_item_sum:
  "fst (tennis_item pa pb item cnt) + snd (tennis_item pa pb item cnt)
     \<le> fst cnt + snd cnt + 1"
  by (simp add: tennis_item_def Let_def split: option.split prod.split)

lemma fold_tennis_sum:
  "fst (fold (tennis_item pa pb) h2h cnt) + snd (fold (tennis_item pa pb) h2h cnt)
     \<le> fst cnt + snd cnt + length h2h"
proof (induction h2h arbitrary: cnt)
  case Nil
  show ?case by simp
next
  case (Cons item h2h)
  let ?c = "tennis_item pa pb item cnt"
  have "fst (fold (tennis_item pa pb) h2h ?c) + snd (fold (tennis_item pa pb) h2h ?c)
          \<le> fst ?c + snd ?c + length h2h"
    by (rule Cons.IH)
  also have "\<dots> \<le> (fst cnt + snd cnt + 1) + length h2h"
    using tennis_item_sum [of pa pb item cnt] by simp
  finally show ?case by simp
qed

lemma tm_a_wins:
  "player_a_wins (process_match_tennis analyze page)
     = fst (tennis_wins (player_a_name page) (player_b_name page) (tennis_h2h page))"
  by (simp add: process_match_tennis_def Let_def split: prod.split sum.split)

lemma tm_b_wins:
  "player_b_wins (process_match_tennis analyze page)
     = snd (tennis_wins (player_a_name page) (player_b_name page) (tennis_h2h page))"
  by (simp add: process_match_tennis_def Let_def split: prod.split sum.split)

lemma tm_h2h_count:
  "tennis_h2h_count (process_match_tennis analyze page) = length (tennis_h2h page)"
  by (simp add: process_match_tennis_def Let_def split: prod.split sum.split)

text \<open>
  Claim C10. The tennis count credits a decided past match to one player at most: the
  test for player A comes first, so a winner whose name matches both players adds to
  \<open>player_a_wins\<close> only, and for every H2H list
  \<open>player_a_wins + player_b_wins \<le> h2h_count\<close>.
\<close>

theorem tennis_single_credit:
  "player_a_wins (process_match_tennis analyze page)
     + player_b_wins (process_match_tennis analyze page)
       \<le> tennis_h2h_count (process_match_tennis analyze page)
   \<and> (score_search (score item) = Some (sets1, sets2) \<and> sets1 \<noteq> sets2
        \<and> tennis_name_matches
             (if sets1 > sets2 then strip (home item) else strip (away item)) pa
        \<and> tennis_name_matches
             (if sets1 > sets2 then strip (home item) else strip (away item)) pb
      \<longrightarrow> tennis_item pa pb item (a, b) = (a + 1, b))"
proof -
  have "fst (tennis_wins (player_a_name page) (player_b_name page) (tennis_h2h page))
          + snd (tennis_wins (player_a_name page) (player_b_name page) (tennis_h2h page))
        \<le> length (tennis_h2h page)"
    using fold_tennis_sum [of "player_a_name page" "player_b_name page" "tennis_h2h page" "(0, 0)"]
    by (simp add: tennis_wins_def)
  then have total: "player_a_wins (process_match_tennis analyze page)
     + player_b_wins (process_match_tennis analyze page)
       \<le> tennis_h2h_count (process_match_tennis analyze page)"
    by (simp add: tm_a_wins tm_b_wins tm_h2h_count)
  have step: "score_search (score item) = Some (sets1, sets2) \<and> sets1 \<noteq> sets2
        \<and> tennis_name_matches
             (if sets1 > sets2 then strip (home item) else strip (away item)) pa
        \<and> tennis_name_matches
             (if sets1 > sets2 then strip (home item) else strip (away item)) pb
      \<longrightarrow> tennis_item pa pb item (a, b) = (a + 1, b)"
    by (simp add: tennis_item_def Let_def)
  from total step show ?thesis by blast
qed

lemma williams_score: "score_search (score (past_match ''Williams'' ''2-0'' ''Osaka'')) = Some (2, 0)"
  by code_simp

lemma williams_a:
  "tennis_name_matches (strip (home (past_match ''Williams'' ''2-0'' ''Osaka''))) (Some ''Williams'')"
  by code_simp

lemma williams_b:
  "tennis_name_matches (strip (home (past_match ''Williams'' ''2-0'' ''Osaka''))) (Some ''Williams S.'')"
  by code_simp

text \<open>Williams against Williams S.: the winner Williams matches both names.\<close>

theorem tennis_single_credit_witness:
  "score_search (score (past_match ''Williams'' ''2-0'' ''Osaka'')) = Some (2, 0)
   \<and> tennis_name_matches (strip (home (past_match ''Williams'' ''2-0'' ''Osaka'')))
        (Some ''Williams'')
   \<and> tennis_name_matches (strip (home (past_match ''Williams'' ''2-0'' ''Osaka'')))
        (Some ''Williams S.'')
   \<and> tennis_item (Some ''Williams'') (Some ''Williams S.'')
        (past_match ''Williams'' ''2-0'' ''Osaka'') (0, 0) = (1, 0)"
  using williams_score williams_a williams_b
    tennis_single_credit [of silent_analyzer "tennis_page_of [] [] [] (Inl AnalysisError)"
      "past_match ''Williams'' ''2-0'' ''Osaka''" 2 0 "Some ''Williams''" "Some ''Williams S.''" 0 0]
  by simp

subsection \<open>The tennis verdict\<close>








subsection \<open>Over/under\<close>










subsection \<open>The surface profile\<close>

text \<open>The three passes over the dictionary, for any boost \<open>f\<close>, penalty \<open>g\<close> and
  final step \<open>k\<close>.\<close>

lemma dict_shape:
  assumes "i < 3"
  shows "fold (\<lambda>surf st. AList.update surf (k (stat st surf)) st) surfaces
           (fold (\<lambda>surf st. if surf \<noteq> surfaces ! i
                            then AList.update surf (g (stat st surf)) st else st) surfaces
              (AList.update (surfaces ! i)
                 (f (stat [(''clay'', b), (''grass'', b), (''hard'', b)] (surfaces ! i)))
                 [(''clay'', b), (''grass'', b), (''hard'', b)]))
         = [(''clay'', k (if i = 0 then f b else g b)),
            (''grass'', k (if i = 1 then f b else g b)),
            (''hard'', k (if i = 2 then f b else g b))]"
proof -
  from assms consider "i = 0" | "i = 1" | "i = 2"
    by arith
  then show ?thesis
  proof cases
    case 1
    then show ?thesis by (simp add: surfaces_def stat_def)
  next
    case 2
    then show ?thesis by (simp add: surfaces_def stat_def)
  next
    case 3
    then show ?thesis by (simp add: surfaces_def stat_def)
  qed
qed

lemma specialise_eq: "specialise name b = spec_profile name b"
proof -
  have i: "name_hash name mod 3 < 3" by simp
  show ?thesis
    unfolding specialise_def spec_profile_def spec_surface_value_def Let_def
    by (rule dict_shape [OF i,
          where k = "\<lambda>x. max (30/100) (min (98/100) (x + (of_nat (name_hash name mod 7) - 3) / 100))"
            and g = "\<lambda>x. max (x - 4/100) (30/100)"
            and f = "\<lambda>x. min (x + 8/100) (98/100)"])
qed

lemma clamp_range:
  "(lo::rat) \<le> hi \<Longrightarrow> lo \<le> max lo (min hi x) \<and> max lo (min hi x) \<le> hi"
  by simp

lemma spec_surface_value_range:
  "30/100 \<le> spec_surface_value h i b \<and> spec_surface_value h i b \<le> 98/100"
  unfolding spec_surface_value_def by (rule clamp_range) simp







text \<open>
  Claim C5. Whenever \<^verbatim>\<open>calculate_surface_stats_from_h2h\<close> returns a mapping, for any
  name, H2H list and ranking value, and also when it is the fixed mapping of its
  \<^verbatim>\<open>except\<close> branch, the mapping has the keys clay, grass, hard and all three
  values lie in \<open>[0.30, 0.98]\<close>.
\<close>

theorem surface_values_in_range:
  "calculate_surface_stats_from_h2h h2h player_name cs ranking = Some stats
    \<longrightarrow> map fst stats = surfaces
        \<and> list_all (\<lambda>v. 30/100 \<le> v \<and> v \<le> 98/100) (map snd stats)"
proof
  assume h: "calculate_surface_stats_from_h2h h2h player_name cs ranking = Some stats"
  then obtain name where n: "player_name = Some name" "name \<noteq> []"
    by (auto simp add: calculate_surface_stats_from_h2h_def split: option.splits if_splits)
  show "map fst stats = surfaces
        \<and> list_all (\<lambda>v. 30/100 \<le> v \<and> v \<le> 98/100) (map snd stats)"
  proof (cases "ranking_adjust ranking (h2h_base_rate h2h name)")
    case (Inl e)
    with h n have "stats = surface_fallback"
      by (simp add: calculate_surface_stats_from_h2h_def)
    then show ?thesis
      by (simp add: surface_fallback_def surfaces_def)
  next
    case (Inr b)
    with h n have "stats = spec_profile name b"
      by (simp add: calculate_surface_stats_from_h2h_def specialise_eq)
    then show ?thesis
      using spec_surface_value_range [of "name_hash name" _ b]
      by (simp add: spec_profile_def surfaces_def)
  qed
qed

text \<open>Nadal ranked 4, and Nadal with a ranking that is a string, which raises and gives
  the fixed mapping.\<close>

theorem surface_values_in_range_witness:
  "calculate_surface_stats_from_h2h [] (Some ''Nadal'') (Some ''clay'') (PyInt 4)
     = Some [(''clay'', 84/100), (''grass'', 72/100), (''hard'', 72/100)]
   \<and> list_all (\<lambda>v. 30/100 \<le> v \<and> v \<le> 98/100)
        (map snd [(''clay'', 84/100), (''grass'', 72/100), (''hard'', 72/100 :: rat)])
   \<and> calculate_surface_stats_from_h2h [] (Some ''Nadal'') (Some ''clay'') (PyStr ''ATP'')
     = Some surface_fallback
   \<and> list_all (\<lambda>v. 30/100 \<le> v \<and> v \<le> 98/100) (map snd surface_fallback)"
proof -
  have a: "calculate_surface_stats_from_h2h [] (Some ''Nadal'') (Some ''clay'') (PyInt 4)
     = Some [(''clay'', 84/100), (''grass'', 72/100), (''hard'', 72/100)]"
    by code_simp
  have b: "calculate_surface_stats_from_h2h [] (Some ''Nadal'') (Some ''clay'') (PyStr ''ATP'')
     = Some surface_fallback"
    by code_simp
  show ?thesis
    using a b
      surface_values_in_range [of "[]" "Some ''Nadal''" "Some ''clay''" "PyInt 4"
        "[(''clay'', 84/100), (''grass'', 72/100), (''hard'', 72/100)]"]
      surface_values_in_range [of "[]" "Some ''Nadal''" "Some ''clay''" "PyStr ''ATP''"
        surface_fallback]
    by simp
qed

end
